theory Spec2Isabelle
  imports Main "HOL-Library.AList"
begin

section \<open>Events and errors\<close>

text \<open>
  The \<open>Event\<close> struct of the client: a command, its positional parameters, the trailing
  text and the sensitivity flag (the fields that \<open>client.go\<close> and \<open>handler.go\<close>
  read and write). A Go string is immutable, so \<open>Command\<close> and \<open>Trailing\<close> are values. The
  parameter list is a Go slice. Where nothing aliases it (the events that \<open>client.go\<close>
  builds and hands to \<open>Send\<close>) the type parameter is \<open>string list\<close>, the contents
  themselves; in the dispatch engine, where one event is handed to several handlers, it is
  an address into a store of backing arrays, as a slice header is.
\<close>

record 'p Event =
  Command :: string
  Params :: 'p
  Trailing :: string
  Sensitive :: bool

text \<open>
  The error values of \<open>client.go\<close>. The three package-level variables are distinct
  values compared by identity; \<open>errors.New\<close> at a return site carries its message;
  an error from the transport or the encoder is opaque and identified by a number.
\<close>

datatype error =
    ErrNotConnected
  | ErrAlreadyConnecting
  | ErrDisconnected
  | ErrInvalidTarget string
  | ErrorsNew string
  | ExternalError nat

section \<open>The dispatch engine (handler.go)\<close>

type_synonym addr = nat

text \<open>
  What a running handler can reach: the backing arrays of slices (\<open>arrays\<close>, with
  \<open>brk\<close> the next unused address) and everything else (\<open>user\<close>: the client, the
  variables a closure captured).
\<close>

record 'u Mem =
  arrays :: "addr \<Rightarrow> string list"
  brk :: addr
  user :: 'u

text \<open>
  \<open>Handler.Execute(*Client, Event)\<close>: the event is passed by value, so the handler owns
  the struct it receives, and the slice header in it; the backing array behind the header is
  whatever the header points to.
\<close>

type_synonym 'u Handler = "addr Event \<Rightarrow> 'u Mem \<Rightarrow> 'u Mem"

text \<open>
  \<open>map[string]map[string]Handler\<close>. The inner maps are iterated by \<open>exec\<close>, in an
  order Go leaves unspecified: an association list with distinct keys fixes one iteration
  order, the order of the list.
\<close>

type_synonym 'u registry = "(string \<times> (string \<times> 'u Handler) list) list"

record 'u Caller =
  external :: "'u registry"
  internal :: "'u registry"

definition newCaller :: "'u Caller" where
  "newCaller = \<lparr>external = [], internal = []\<rparr>"

text \<open>\<open>strings.ToUpper\<close> on the ASCII range (a \<open>char\<close> is a byte).\<close>

definition upperChar :: "char \<Rightarrow> char" where
  "upperChar ch =
     (case map_of (zip ''abcdefghijklmnopqrstuvwxyz'' ''ABCDEFGHIJKLMNOPQRSTUVWXYZ'') ch of
        None \<Rightarrow> ch
      | Some u \<Rightarrow> u)"

definition ToUpper :: "string \<Rightarrow> string" where
  "ToUpper s = map upperChar s"

fun total_len :: "'u registry \<Rightarrow> nat" where
  "total_len [] = 0"
| "total_len ((command, hs) # r) = length hs + total_len r"

definition Len :: "'u Caller \<Rightarrow> nat" where
  "Len c = total_len (external c)"

definition Count :: "'u Caller \<Rightarrow> string \<Rightarrow> nat" where
  "Count c cmd = total_len (filter (\<lambda>(command, hs). command = ToUpper cmd) (external c))"

definition letterBytes :: string where
  "letterBytes = ''abcdefghijklmnopqrstuvwxyzABCDEFGHIJKLMNOPQRSTUVWXYZ''"

text \<open>
  \<open>cuid\<close>: \<open>n\<close> letters drawn with \<open>rand.Int63() % len(letterBytes)\<close>; \<open>rnd i\<close> is
  the \<open>i\<close>-th draw, a non-negative number.
\<close>

definition Caller_cuid :: "(nat \<Rightarrow> nat) \<Rightarrow> string \<Rightarrow> nat \<Rightarrow> string \<times> string" where
  "Caller_cuid rnd cmd n =
     (let b = map (\<lambda>i. letterBytes ! (rnd i mod length letterBytes)) [0..<n]
      in (cmd @ '':'' @ b, b))"

text \<open>
  \<open>fmt.Sscanf(input, "%s:%s", &cmd, &uid)\<close>, with the errors ignored. The verb \<open>%s\<close>
  skips leading blanks (a newline there is an error, since the format has none) and stores
  the run of characters up to the next white space or the end of the input; a scan that
  finds no character is an error. The literal \<open>:\<close> of the format must then equal the next
  character of the input. Scanning stops at the first error, and the variables not yet
  reached keep their zero value, the empty string.
\<close>

definition isSpace :: "char \<Rightarrow> bool" where
  "isSpace ch = (of_char ch \<in> {9, 10, 11, 12, 13, 32 :: nat})"

definition isBlank :: "char \<Rightarrow> bool" where
  "isBlank ch = (isSpace ch \<and> ch \<noteq> CHR 0x0A)"

definition scan_s :: "string \<Rightarrow> (string \<times> string) option" where
  "scan_s inp =
     (let inp1 = dropWhile isBlank inp;
          tok = takeWhile (\<lambda>ch. \<not> isSpace ch) inp1
      in if tok = [] then None else Some (tok, dropWhile (\<lambda>ch. \<not> isSpace ch) inp1))"

definition cuidToID :: "string \<Rightarrow> string \<times> string" where
  "cuidToID inp =
     (case scan_s inp of
        None \<Rightarrow> ('''', '''')
      | Some (cmd, rest) \<Rightarrow>
          (case rest of
             [] \<Rightarrow> (cmd, '''')
           | ch # rest' \<Rightarrow>
               if ch \<noteq> CHR '':'' then (cmd, '''')
               else (case scan_s rest' of None \<Rightarrow> (cmd, '''') | Some (uid, _) \<Rightarrow> (cmd, uid))))"

record 'u execStack =
  handler :: "'u Handler"
  stack_cuid :: string

text \<open>
  The snapshot \<open>exec\<close> takes under the read lock: the internal handlers of the command
  first, then the external ones.
\<close>

definition stack_of :: "'u registry \<Rightarrow> string \<Rightarrow> 'u execStack list" where
  "stack_of r command =
     (case map_of r command of
        None \<Rightarrow> []
      | Some hs \<Rightarrow> map (\<lambda>(cuid, h). \<lparr>handler = h, stack_cuid = cuid\<rparr>) hs)"

definition snapshot :: "'u Caller \<Rightarrow> string \<Rightarrow> 'u execStack list" where
  "snapshot c command = stack_of (internal c) command @ stack_of (external c) command"

text \<open>
  \<open>exec\<close> starts one goroutine per entry of the stack, each calling
  \<open>stack[index].Execute(client, *event)\<close>, and waits for all of them. The goroutines
  all read the one struct \<open>event\<close> points to. Here they run to completion one after
  another in the order of the stack, which is one of the schedules the Go runtime may choose.
\<close>

definition exec :: "'u Caller \<Rightarrow> string \<Rightarrow> addr Event \<Rightarrow> 'u Mem \<Rightarrow> 'u Mem" where
  "exec c command event m = foldl (\<lambda>m s. handler s event m) m (snapshot c command)"

definition ClearAll :: "'u Caller \<Rightarrow> 'u Caller" where
  "ClearAll c = c\<lparr>external := []\<rparr>"

definition clearInternal :: "'u Caller \<Rightarrow> 'u Caller" where
  "clearInternal c = c\<lparr>internal := []\<rparr>"

definition Clear :: "'u Caller \<Rightarrow> string \<Rightarrow> 'u Caller" where
  "Clear c cmd = c\<lparr>external := AList.delete (ToUpper cmd) (external c)\<rparr>"

text \<open>
  \<open>remove\<close> (and \<open>Remove\<close>, which only adds the lock). The inner map is looked up
  with the whole identifier \<open>cuid\<close>, and the entry deleted is the one under \<open>uid\<close>.
\<close>

definition remove :: "'u Caller \<Rightarrow> string \<Rightarrow> bool \<times> 'u Caller" where
  "remove c cuid =
     (let (cmd, uid) = cuidToID cuid in
      if length cmd = 0 \<or> length uid = 0 then (False, c)
      else (case map_of (external c) cmd of
              None \<Rightarrow> (False, c)
            | Some hs \<Rightarrow>
                (case map_of hs cuid of
                   None \<Rightarrow> (False, c)
                 | Some _ \<Rightarrow>
                     (True, c\<lparr>external := AList.update cmd (AList.delete uid hs) (external c)\<rparr>))))"

definition Remove :: "'u Caller \<Rightarrow> string \<Rightarrow> bool \<times> 'u Caller" where
  "Remove c cuid = remove c cuid"

text \<open>
  \<open>register\<close> (and \<open>sregister\<close>, \<open>AddHandler\<close>, \<open>Add\<close>): the handler is stored
  under \<open>uid\<close> in the inner map of the upper-cased command, and \<open>cuid\<close> is returned.
\<close>

definition add_to :: "'u registry \<Rightarrow> string \<Rightarrow> string \<Rightarrow> 'u Handler \<Rightarrow> 'u registry" where
  "add_to r cmd uid h =
     (let hs = (case map_of r cmd of None \<Rightarrow> [] | Some hs \<Rightarrow> hs)
      in AList.update cmd (AList.update uid h hs) r)"

definition register ::
  "(nat \<Rightarrow> nat) \<Rightarrow> 'u Caller \<Rightarrow> bool \<Rightarrow> string \<Rightarrow> 'u Handler \<Rightarrow> string \<times> 'u Caller" where
  "register rnd c is_internal cmd0 h =
     (let cmd = ToUpper cmd0; (cuid, uid) = Caller_cuid rnd cmd 20 in
      if is_internal then (cuid, c\<lparr>internal := add_to (internal c) cmd uid h\<rparr>)
      else (cuid, c\<lparr>external := add_to (external c) cmd uid h\<rparr>))"

definition AddHandler ::
  "(nat \<Rightarrow> nat) \<Rightarrow> 'u Caller \<Rightarrow> string \<Rightarrow> 'u Handler \<Rightarrow> string \<times> 'u Caller" where
  "AddHandler rnd c cmd h = register rnd c False cmd h"

text \<open>
  Modelled from the spec: the command-name constants (\<open>JOIN\<close>, \<open>QUIT\<close>, the wildcard
  key \<open>ALLEVENTS\<close>, the virtual events \<open>INITIALIZED\<close>, \<open>DISCONNECTED\<close>,
  \<open>STOPPED\<close>, ...) are declared outside the given sources. The protocol verbs are
  their own names; the virtual events and the wildcard only have to be fixed strings.
\<close>

definition ALLEVENTS :: string where "ALLEVENTS = ''*''"
definition INITIALIZED :: string where "INITIALIZED = ''INITIALIZED''"
definition DISCONNECTED :: string where "DISCONNECTED = ''DISCONNECTED''"
definition STOPPED :: string where "STOPPED = ''STOPPED''"
definition JOIN :: string where "JOIN = ''JOIN''"
definition QUIT :: string where "QUIT = ''QUIT''"
definition NICK :: string where "NICK = ''NICK''"
definition USER :: string where "USER = ''USER''"
definition PASS :: string where "PASS = ''PASS''"
definition CAP :: string where "CAP = ''CAP''"
definition CAP_LS :: string where "CAP_LS = ''LS''"

text \<open>
  Modelled from the spec: \<open>Event.Copy\<close> is declared outside the given sources; the spec
  has the event "copied (not shared)". The copy has the fields of the original and a
  parameter list in a backing array of its own.
\<close>

definition Copy :: "addr Event \<Rightarrow> 'u Mem \<Rightarrow> addr Event \<times> 'u Mem" where
  "Copy e m =
     (e\<lparr>Params := brk m\<rparr>,
      m\<lparr>arrays := (arrays m)(brk m := arrays m (Params e)), brk := Suc (brk m)\<rparr>)"

text \<open>
  \<open>RunHandlers\<close>: one copy of the event for the wildcard handlers, one for the handlers
  of the command, one for the CTCP decoder. \<open>ctcp\<close> stands for \<open>decodeCTCP\<close>
  followed by \<open>CTCP.call\<close>, both outside the given sources. The debug log is left out.
\<close>

definition RunHandlers ::
  "'u Handler \<Rightarrow> 'u Caller \<Rightarrow> addr Event option \<Rightarrow> 'u Mem \<Rightarrow> 'u Mem" where
  "RunHandlers ctcp c event m =
     (case event of
        None \<Rightarrow> m
      | Some ev \<Rightarrow>
          (let (e1, m1) = Copy ev m;
               m2 = exec c ALLEVENTS e1 m1;
               (e2, m3) = Copy ev m2;
               m4 = exec c (Command ev) e2 m3;
               (e3, m5) = Copy ev m4
           in ctcp e3 m5))"

section \<open>The connection supervisor (client.go)\<close>

text \<open>
  Instants and \<open>time.Duration\<close> are counted in nanoseconds. A \<open>net.Conn\<close> and a
  context made by \<open>context.WithCancel\<close> are known by their identity.
\<close>

type_synonym time = int
type_synonym Duration = int
type_synonym conn = nat
type_synonym token = nat

definition Second :: Duration where "Second = 1000000000"

record Config =
  Server :: string
  Port :: int
  Password :: string
  Nick :: string
  User :: string
  Name :: string
  Conn :: "conn option"
  TLSConfig :: "unit option"
  Retries :: int
  AllowFlood :: bool
  ReconnectDelay :: Duration
  disableTracking :: bool
  disableCapTracking :: bool
  disableNickCollision :: bool

text \<open>
  The session state, with the fields \<open>client.go\<close> uses (the struct is declared outside
  the given sources). The decoder and the encoder are bound to \<open>conn\<close> and have no field
  of their own; \<open>channels\<close> holds the names of the tracked channels, \<open>None\<close> the nil map.
\<close>

record state =
  conn :: "conn option"
  connected :: bool
  connTime :: "time option"
  lastWrite :: time
  nick :: string
  channels :: "string list option"

text \<open>
  Modelled from the spec: \<open>newState\<close> is declared outside the given sources. The spec
  has a session state "replaced wholesale on each (re)connect", which \<open>Connect\<close> only
  later "marks connected with a timestamp": a new state has no transport, is not connected
  and has no connection time.
\<close>

definition newState :: state where
  "newState = \<lparr>conn = None, connected = False, connTime = None, lastWrite = 0, nick = [],
     channels = Some []\<rparr>"

text \<open>
  The \<open>Client\<close> struct. \<open>Events\<close> is the buffered channel, as the queue of its
  contents (a send that would block on a full channel is not modelled). The three cancel
  functions are known by the context they cancel; \<open>None\<close> is the nil function. The
  dispatch engine (\<open>Callbacks\<close>) is modelled on its own above; the mutex and the debug
  logger are left out.
\<close>

record Client =
  Config :: Config
  Events :: "string list Event list"
  state :: state
  initTime :: time
  tries :: int
  reconnecting :: bool
  closeRead :: "token option"
  closeExec :: "token option"
  closeLoop :: "token option"

text \<open>
  What the client does to the world outside its struct: the clock, the calls to
  \<open>Dial\<close>, the connections closed, the events handed to an encoder (with the connection
  the encoder was bound to), the waits, the contexts created and cancelled, and the
  goroutines started, each with the context it polls.
\<close>

datatype task = ReadLoop | ExecLoop | MainLoop

record World =
  clock :: time
  dials :: nat
  closed :: "conn list"
  wire :: "(conn option \<times> string list Event) list"
  slept :: "Duration list"
  next_token :: token
  cancelled :: "token list"
  tasks :: "(task \<times> token) list"

type_synonym sys = "Client \<times> World"

text \<open>
  What the world answers, and the helpers of the package that are outside the given
  sources: the result of the \<open>n\<close>-th dial (with or without TLS, to an address), the
  result of the \<open>n\<close>-th \<open>Encode\<close>, the validity predicates, the rate limiter
  \<open>state.rate\<close>, \<open>Event.Len\<close> and the constant \<open>maxLength\<close>.
\<close>

record Env =
  Dial :: "bool \<Rightarrow> string \<Rightarrow> nat \<Rightarrow> error + conn"
  Encode :: "conn option \<Rightarrow> nat \<Rightarrow> string list Event \<Rightarrow> error option"
  IsValidNick :: "string \<Rightarrow> bool"
  IsValidUser :: "string \<Rightarrow> bool"
  IsValidChannel :: "string \<Rightarrow> bool"
  rate :: "state \<Rightarrow> int \<Rightarrow> Duration"
  EventLen :: "string list Event \<Rightarrow> int"
  maxLength :: int

definition New :: "Config \<Rightarrow> time \<Rightarrow> Client" where
  "New config now =
     \<lparr>Config = config, Events = [], state = newState, initTime = now, tries = 0,
      reconnecting = False, closeRead = None, closeExec = None, closeLoop = None\<rparr>"

definition World0 :: "time \<Rightarrow> World" where
  "World0 now =
     \<lparr>clock = now, dials = 0, closed = [], wire = [], slept = [], next_token = 0,
      cancelled = [], tasks = []\<rparr>"

text \<open>\<open>time.Sleep\<close> and \<open><-time.After\<close>: the wait is recorded and the clock moves on.\<close>

definition pause :: "Duration \<Rightarrow> World \<Rightarrow> World" where
  "pause d w = w\<lparr>clock := clock w + max d 0, slept := slept w @ [d]\<rparr>"

text \<open>Calling a cancel function; calling the nil function is guarded at every call site.\<close>

definition cancel :: "token option \<Rightarrow> World \<Rightarrow> World" where
  "cancel f w = (case f of None \<Rightarrow> w | Some t \<Rightarrow> w\<lparr>cancelled := cancelled w @ [t]\<rparr>)"

text \<open>\<open>context.WithCancel(context.Background())\<close>: a context nobody has seen yet.\<close>

definition WithCancel :: "World \<Rightarrow> token \<times> World" where
  "WithCancel w = (next_token w, w\<lparr>next_token := Suc (next_token w)\<rparr>)"

definition go :: "task \<Rightarrow> token \<Rightarrow> World \<Rightarrow> World" where
  "go t ctx w = w\<lparr>tasks := tasks w @ [(t, ctx)]\<rparr>"

text \<open>
  A background task stops at its next look at \<open>ctx.Done()\<close> once its context has been
  cancelled; until then it runs.
\<close>

definition stopped :: "World \<Rightarrow> task \<times> token \<Rightarrow> bool" where
  "stopped w t = (snd t \<in> set (cancelled w))"

definition cleanup :: "bool \<Rightarrow> sys \<Rightarrow> sys" where
  "cleanup all s =
     (let (c, w) = s;
          w1 = (case conn (state c) of None \<Rightarrow> w | Some k \<Rightarrow> w\<lparr>closed := closed w @ [k]\<rparr>);
          w2 = cancel (closeRead c) w1;
          w3 = cancel (closeExec c) w2;
          w4 = (if all then cancel (closeLoop c) w3 else w3)
      in (c, w4))"

fun digits :: "nat \<Rightarrow> string" where
  "digits n =
     (if n < 10 then [''0123456789'' ! n]
      else digits (n div 10) @ [''0123456789'' ! (n mod 10)])"

declare digits.simps [simp del]

definition decimal :: "int \<Rightarrow> string" where
  "decimal i = (if i < 0 then ''-'' @ digits (nat (- i)) else digits (nat i))"

text \<open>\<open>Client.Server()\<close>: \<open>fmt.Sprintf("%s:%d", Server, Port)\<close>.\<close>

definition Client_Server :: "Client \<Rightarrow> string" where
  "Client_Server c = Server (Config c) @ '':'' @ decimal (Port (Config c))"

definition push :: "string list Event \<Rightarrow> sys \<Rightarrow> sys" where
  "push ev s = (let (c, w) = s in (c\<lparr>Events := Events c @ [ev]\<rparr>, w))"

definition "write" :: "Env \<Rightarrow> string list Event \<Rightarrow> sys \<Rightarrow> error option \<times> sys" where
  "write E event s =
     (let (c, w) = s;
          c1 = c\<lparr>state := (state c)\<lparr>lastWrite := clock w\<rparr>\<rparr>
      in (Encode E (conn (state c1)) (length (wire w)) event,
          c1, w\<lparr>wire := wire w @ [(conn (state c1), event)]\<rparr>))"

definition Send :: "Env \<Rightarrow> string list Event \<Rightarrow> sys \<Rightarrow> error option \<times> sys" where
  "Send E event s =
     (let (c, w) = s;
          w1 = (if \<not> AllowFlood (Config c) then pause (rate E (state c) (EventLen E event)) w
                else w)
      in write E event (c, w1))"

definition quit :: "Env \<Rightarrow> bool \<Rightarrow> sys \<Rightarrow> sys" where
  "quit E sendMessage s =
     (let s1 = (if sendMessage
                then snd (Send E \<lparr>Command = QUIT, Params = [], Trailing = ''disconnecting...'',
                                  Sensitive = False\<rparr> s)
                else s);
          s2 = push \<lparr>Command = DISCONNECTED, Params = [], Trailing = Client_Server (fst s1),
                     Sensitive = False\<rparr> s1
      in cleanup False s2)"

definition Quit :: "Env \<Rightarrow> sys \<Rightarrow> sys" where
  "Quit E s = quit E True s"

definition QuitWithMessage :: "Env \<Rightarrow> string \<Rightarrow> sys \<Rightarrow> sys" where
  "QuitWithMessage E message s =
     quit E False (snd (Send E \<lparr>Command = QUIT, Params = [], Trailing = message,
                                Sensitive = False\<rparr> s))"

definition Stop :: "Env \<Rightarrow> sys \<Rightarrow> sys" where
  "Stop E s =
     (let s1 = quit E False s
      in push \<lparr>Command = STOPPED, Params = [], Trailing = Client_Server (fst s1),
               Sensitive = False\<rparr> s1)"

definition connectMessages :: "Client \<Rightarrow> string list Event list \<times> Client" where
  "connectMessages c =
     (let events0 = (if Password (Config c) \<noteq> []
                     then [\<lparr>Command = PASS, Params = [Password (Config c)], Trailing = [],
                            Sensitive = False\<rparr>]
                     else []);
          events1 = events0 @ [\<lparr>Command = NICK, Params = [Nick (Config c)], Trailing = [],
                                 Sensitive = False\<rparr>];
          c1 = (if Name (Config c) = [] then c\<lparr>Config := (Config c)\<lparr>Name := User (Config c)\<rparr>\<rparr>
                else c);
          events2 = events1 @ [\<lparr>Command = USER, Params = [User (Config c1), ''+iw'', ''*''],
                                 Trailing = Name (Config c1), Sensitive = False\<rparr>]
      in (events2, c1))"

text \<open>The loop of \<open>Connect\<close> over the connect messages: the first failed write ends it.\<close>

fun write_events :: "Env \<Rightarrow> string list Event list \<Rightarrow> sys \<Rightarrow> error option \<times> sys" where
  "write_events E [] s = (None, s)"
| "write_events E (event # events) s =
     (case write E event s of
        (Some err, s') \<Rightarrow> (Some err, s')
      | (None, s') \<Rightarrow> write_events E events s')"

text \<open>
  Modelled from the spec: \<open>listCAP\<close> is declared outside the given sources. The spec has
  \<open>connect()\<close> perform "capability listing" after the session-opening commands and
  return "the first transport/protocol error encountered": the request that lists the
  capabilities is written like the messages before it, and its error is the result.
\<close>

definition listCAP :: "Env \<Rightarrow> sys \<Rightarrow> error option \<times> sys" where
  "listCAP E s =
     write E \<lparr>Command = CAP, Params = [CAP_LS, ''302''], Trailing = [], Sensitive = False\<rparr> s"

text \<open>
  The part of \<open>Connect\<close> that obtains the connection: \<open>net.Dial\<close> or \<open>tls.Dial\<close> to
  \<open>Client.Server()\<close> when the configuration supplies no connection, the supplied one
  otherwise.
\<close>

definition obtain_conn :: "Env \<Rightarrow> sys \<Rightarrow> (error + conn) \<times> World" where
  "obtain_conn E s =
     (let (c, w) = s in
      case Conn (Config c) of
        None \<Rightarrow> (Dial E (TLSConfig (Config c) \<noteq> None) (Client_Server c) (dials w),
                  w\<lparr>dials := Suc (dials w)\<rparr>)
      | Some k \<Rightarrow> (Inr k, w))"

definition Connect :: "Env \<Rightarrow> sys \<Rightarrow> error option \<times> sys" where
  "Connect E s =
     (let (c, w) = s in
      if Server (Config c) = [] then (Some (ErrorsNew ''invalid server specified''), s)
      else if Port (Config c) < 21 \<or> Port (Config c) > 65535
      then (Some (ErrorsNew ''invalid port (21-65535)''), s)
      else if \<not> IsValidNick E (Nick (Config c))
      then (Some (ErrorsNew ''invalid nickname or user''), s)
      else if \<not> IsValidUser E (User (Config c))
      then (Some (ErrorsNew ''invalid nickname or user''), s)
      else
        (let (c1, w1) = cleanup False s;
             c2 = c1\<lparr>state := newState\<rparr>
         in case obtain_conn E (c2, w1) of
              (Inl err, w3) \<Rightarrow> (Some err, (c2, w3))
            | (Inr k, w3) \<Rightarrow>
                (let c4 = c2\<lparr>state := (state c2)\<lparr>conn := Some k\<rparr>\<rparr>;
                     s5 = push \<lparr>Command = INITIALIZED, Params = [],
                                Trailing = Client_Server c4, Sensitive = False\<rparr> (c4, w3);
                     (events, c6) = connectMessages (fst s5)
                 in case write_events E events (c6, snd s5) of
                      (Some err, s7) \<Rightarrow> (Some err, s7)
                    | (None, s7) \<Rightarrow>
                        (case listCAP E s7 of
                           (Some err, s8) \<Rightarrow> (Some err, s8)
                         | (None, (c8, w8)) \<Rightarrow>
                             (let c9 = c8\<lparr>tries := 0, reconnecting := False\<rparr>;
                                  ctime = clock w8;
                                  c10 = c9\<lparr>state := (state c9)\<lparr>connTime := Some ctime,
                                               connected := True\<rparr>\<rparr>;
                                  (rctx, w11) = WithCancel w8;
                                  c11 = c10\<lparr>closeRead := Some rctx\<rparr>;
                                  (ectx, w12) = WithCancel w11;
                                  c12 = c11\<lparr>closeRead := Some ectx\<rparr>;
                                  w13 = go ReadLoop rctx w12;
                                  w14 = go ExecLoop ectx w13
                              in (None, (c12, w14)))))))"

text \<open>
  The \<open>for\<close> statement of \<open>reconnect\<close> after its init statement
  \<open>err = c.Connect()\<close> has run: while \<open>err != nil && c.tries < c.Config.Retries\<close> the
  body sleeps and the post statement increments \<open>c.tries\<close>. Nothing in the body or the
  post statement assigns \<open>err\<close>.
\<close>

function retry_loop :: "error option \<Rightarrow> sys \<Rightarrow> sys" where
  "retry_loop err s =
     (let (c, w) = s in
      if err \<noteq> None \<and> tries c < Retries (Config c)
      then retry_loop err (c\<lparr>tries := tries c + 1\<rparr>, pause (ReconnectDelay (Config c)) w)
      else s)"
  by pat_completeness auto
termination
  by (relation "measure (\<lambda>(err, c, w). nat (Retries (Config c) - tries c))") auto

declare retry_loop.simps [simp del]

definition reconnect :: "Env \<Rightarrow> bool \<Rightarrow> sys \<Rightarrow> error option \<times> sys" where
  "reconnect E remoteInvoked s =
     (let (c, w) = s in
      if reconnecting c then (Some ErrDisconnected, s)
      else
        (let c1 = c\<lparr>reconnecting := True\<rparr>;
             (c2, w2) = cleanup False (c1, w);
             c3 = (if ReconnectDelay (Config c2) < 10 * Second
                   then c2\<lparr>Config := (Config c2)\<lparr>ReconnectDelay := 25 * Second\<rparr>\<rparr>
                   else c2)
         in if Retries (Config c3) < 1 \<and> \<not> remoteInvoked
            then (Some ErrDisconnected, (c3\<lparr>reconnecting := False\<rparr>, w2))
            else
              (let w4 = pause (ReconnectDelay (Config c3)) w2;
                   (err, s5) = Connect E (c3, w4);
                   s6 = retry_loop err s5;
                   (c7, w7) = (if err \<noteq> None then cleanup False s6 else s6)
               in (err, (c7\<lparr>reconnecting := False\<rparr>, w7)))))"

definition Reconnect :: "Env \<Rightarrow> sys \<Rightarrow> error option \<times> sys" where
  "Reconnect E s = reconnect E True s"

text \<open>
  \<open>Loop\<close> makes the third context and waits for it; the caller's wait is recorded as a
  task polling that context.
\<close>

definition Loop :: "sys \<Rightarrow> sys" where
  "Loop s =
     (let (c, w) = s; (ctx, w1) = WithCancel w
      in (c\<lparr>closeLoop := Some ctx\<rparr>, go MainLoop ctx w1))"

datatype 'a outcome = Returned 'a | Panicked

definition IsConnected :: "Client \<Rightarrow> bool" where
  "IsConnected c = connected (state c)"

definition Uptime :: "Client \<Rightarrow> error + time option" where
  "Uptime c = (if \<not> IsConnected c then Inl ErrNotConnected else Inr (connTime (state c)))"

text \<open>\<open>ConnSince\<close> dereferences \<open>connTime\<close>: a nil pointer there is a run-time panic.\<close>

definition ConnSince :: "sys \<Rightarrow> (error + Duration) outcome" where
  "ConnSince s =
     (let (c, w) = s in
      if \<not> IsConnected c then Returned (Inl ErrNotConnected)
      else (case connTime (state c) of
              None \<Rightarrow> Panicked
            | Some t \<Rightarrow> Returned (Inr (clock w - t))))"

definition Client_Nick :: "Env \<Rightarrow> string \<Rightarrow> sys \<Rightarrow> error option \<times> sys" where
  "Client_Nick E name s =
     (let (c, w) = s in
      if \<not> IsValidNick E name then (Some (ErrInvalidTarget name), s)
      else Send E \<lparr>Command = NICK, Params = [name], Trailing = [], Sensitive = False\<rparr>
             (c\<lparr>state := (state c)\<lparr>nick := name\<rparr>\<rparr>, w))"

definition DisableTracking :: "Client \<Rightarrow> Client" where
  "DisableTracking c =
     c\<lparr>Config := (Config c)\<lparr>disableTracking := True\<rparr>, state := (state c)\<lparr>channels := None\<rparr>\<rparr>"

definition DisableCapTracking :: "Client \<Rightarrow> Client" where
  "DisableCapTracking c =
     (if disableCapTracking (Config c) then c
      else c\<lparr>Config := (Config c)\<lparr>disableCapTracking := True\<rparr>\<rparr>)"

definition DisableNickCollision :: "Client \<Rightarrow> Client" where
  "DisableNickCollision c =
     c\<lparr>Config := (Config c)\<lparr>disableNickCollision := True\<rparr>,
       state := (state c)\<lparr>channels := None\<rparr>\<rparr>"

text \<open>
  The loop of \<open>Join\<close>, on the channels from index \<open>i\<close> on; \<open>i == len(channels)-1\<close>
  holds when no channel follows. \<open>max\<close> is \<open>maxLength - len(JOIN) - 1\<close>.
\<close>

fun Join_loop :: "Env \<Rightarrow> int \<Rightarrow> string \<Rightarrow> string list \<Rightarrow> sys \<Rightarrow> error option \<times> sys" where
  "Join_loop E mx buffer [] s = (None, s)"
| "Join_loop E mx buffer (ch # rest) s =
     (if \<not> IsValidChannel E ch then (Some (ErrInvalidTarget ch), s)
      else if int (length (buffer @ '','' @ ch)) > mx
      then (case Send E \<lparr>Command = JOIN, Params = [buffer], Trailing = [], Sensitive = False\<rparr> s of
              (Some err, s') \<Rightarrow> (Some err, s')
            | (None, s') \<Rightarrow> Join_loop E mx [] rest s')
      else
        (let buffer' = (if length buffer = 0 then ch else buffer @ '','' @ ch)
         in if rest = []
            then Send E \<lparr>Command = JOIN, Params = [buffer'], Trailing = [], Sensitive = False\<rparr> s
            else Join_loop E mx buffer' rest s))"

definition Join :: "Env \<Rightarrow> string list \<Rightarrow> sys \<Rightarrow> error option \<times> sys" where
  "Join E chans s = Join_loop E (maxLength E - int (length JOIN) - 1) [] chans s"

definition JoinKey :: "Env \<Rightarrow> string \<Rightarrow> string \<Rightarrow> sys \<Rightarrow> error option \<times> sys" where
  "JoinKey E channel password s =
     (if \<not> IsValidChannel E channel then (Some (ErrInvalidTarget channel), s)
      else Send E \<lparr>Command = JOIN, Params = [channel, password], Trailing = [],
                   Sensitive = False\<rparr> s)"

definition Part :: "Env \<Rightarrow> string \<Rightarrow> string \<Rightarrow> sys \<Rightarrow> error option \<times> sys" where
  "Part E channel message s =
     (if \<not> IsValidChannel E channel then (Some (ErrInvalidTarget channel), s)
      else Send E \<lparr>Command = JOIN, Params = [channel], Trailing = [], Sensitive = False\<rparr> s)"

definition PartMessage :: "Env \<Rightarrow> string \<Rightarrow> string \<Rightarrow> sys \<Rightarrow> error option \<times> sys" where
  "PartMessage E channel message s =
     (if \<not> IsValidChannel E channel then (Some (ErrInvalidTarget channel), s)
      else Send E \<lparr>Command = JOIN, Params = [channel], Trailing = message,
                   Sensitive = False\<rparr> s)"

text \<open>
  The states the client can be in: a new client, and from there any call of the operations
  above, by the embedding application, by a handler or by a background task (the reader
  reconnects and enqueues, the dispatcher dequeues). \<open>Config\<close> is an exported field, so
  the application may assign it between calls; time may pass between calls.
\<close>

inductive reachable :: "Env \<Rightarrow> sys \<Rightarrow> bool" for E :: Env where
  r_New: "reachable E (New config now, World0 now)"
| r_Config: "reachable E (c, w) \<Longrightarrow> reachable E (c\<lparr>Config := config\<rparr>, w)"
| r_tick: "reachable E (c, w) \<Longrightarrow> 0 \<le> d \<Longrightarrow> reachable E (c, w\<lparr>clock := clock w + d\<rparr>)"
| r_Connect: "reachable E s \<Longrightarrow> reachable E (snd (Connect E s))"
| r_reconnect: "reachable E s \<Longrightarrow> reachable E (snd (reconnect E remoteInvoked s))"
| r_cleanup: "reachable E s \<Longrightarrow> reachable E (cleanup all s)"
| r_quit: "reachable E s \<Longrightarrow> reachable E (quit E sendMessage s)"
| r_QuitWithMessage: "reachable E s \<Longrightarrow> reachable E (QuitWithMessage E message s)"
| r_Stop: "reachable E s \<Longrightarrow> reachable E (Stop E s)"
| r_Loop: "reachable E s \<Longrightarrow> reachable E (Loop s)"
| r_Send: "reachable E s \<Longrightarrow> reachable E (snd (Send E event s))"
| r_Nick: "reachable E s \<Longrightarrow> reachable E (snd (Client_Nick E name s))"
| r_Join: "reachable E s \<Longrightarrow> reachable E (snd (Join E chans s))"
| r_JoinKey: "reachable E s \<Longrightarrow> reachable E (snd (JoinKey E channel password s))"
| r_Part: "reachable E s \<Longrightarrow> reachable E (snd (Part E channel message s))"
| r_PartMessage: "reachable E s \<Longrightarrow> reachable E (snd (PartMessage E channel message s))"
| r_DisableTracking: "reachable E (c, w) \<Longrightarrow> reachable E (DisableTracking c, w)"
| r_DisableCapTracking: "reachable E (c, w) \<Longrightarrow> reachable E (DisableCapTracking c, w)"
| r_DisableNickCollision: "reachable E (c, w) \<Longrightarrow> reachable E (DisableNickCollision c, w)"
| r_enqueue: "reachable E s \<Longrightarrow> reachable E (push event s)"
| r_dequeue: "reachable E (c, w) \<Longrightarrow> reachable E (c\<lparr>Events := tl (Events c)\<rparr>, w)"

section \<open>Concrete inputs\<close>

text \<open>
  A configuration that passes the checks of \<open>Connect\<close>, and two worlds: one where every
  dial and every write succeeds, one where the first dial fails and every later one would
  succeed. The validity predicates, the rate and the length are stand-ins for the helpers
  outside the given sources; the maximum line length is the 510 bytes of the protocol.
\<close>

definition example_config :: Config where
  "example_config =
     \<lparr>Server = ''irc.example.org'', Port = 6667, Password = [], Nick = ''bot'', User = ''bot'',
      Name = [], Conn = None, TLSConfig = None, Retries = 3, AllowFlood = False,
      ReconnectDelay = 0, disableTracking = False, disableCapTracking = False,
      disableNickCollision = False\<rparr>"

definition starts_with_hash :: "string \<Rightarrow> bool" where
  "starts_with_hash s = (case s of [] \<Rightarrow> False | ch # r \<Rightarrow> ch = CHR ''#'' \<and> r \<noteq> [])"

definition env_up :: Env where
  "env_up =
     \<lparr>Dial = (\<lambda>tls address n. Inr n),
      Encode = (\<lambda>k n event. None),
      IsValidNick = (\<lambda>s. s \<noteq> []),
      IsValidUser = (\<lambda>s. s \<noteq> []),
      IsValidChannel = starts_with_hash,
      rate = (\<lambda>st n. n * 10000000),
      EventLen = (\<lambda>event. int (length (Command event) + length (concat (Params event))
                               + length (Trailing event))),
      maxLength = 510\<rparr>"

definition env_first_dial_fails :: Env where
  "env_first_dial_fails =
     env_up\<lparr>Dial := (\<lambda>tls address n. if n = 0 then Inl (ExternalError 111) else Inr n)\<rparr>"

definition fresh :: sys where
  "fresh = (New example_config 0, World0 0)"

text \<open>The client and the world after \<open>Connect\<close> on \<open>fresh\<close> where everything succeeds.\<close>

definition online :: sys where
  "online =
     (\<lparr>Config = example_config\<lparr>Name := ''bot''\<rparr>,
       Events = [\<lparr>Command = INITIALIZED, Params = [], Trailing = ''irc.example.org:6667'',
                  Sensitive = False\<rparr>],
       state = \<lparr>conn = Some 0, connected = True, connTime = Some 0, lastWrite = 0, nick = [],
                 channels = Some []\<rparr>,
       initTime = 0, tries = 0, reconnecting = False, closeRead = Some 1, closeExec = None,
       closeLoop = None\<rparr>,
      \<lparr>clock = 0, dials = 1, closed = [],
       wire = [(Some 0, \<lparr>Command = NICK, Params = [''bot''], Trailing = [], Sensitive = False\<rparr>),
               (Some 0, \<lparr>Command = USER, Params = [''bot'', ''+iw'', ''*''], Trailing = ''bot'',
                          Sensitive = False\<rparr>),
               (Some 0, \<lparr>Command = CAP, Params = [CAP_LS, ''302''], Trailing = [],
                          Sensitive = False\<rparr>)],
       slept = [], next_token = 2, cancelled = [],
       tasks = [(ReadLoop, 0), (ExecLoop, 1)]\<rparr>)"

text \<open>Two handlers: one overwrites the first parameter, one records the parameters it sees.\<close>

definition overwrite_first_param :: "string list list Handler" where
  "overwrite_first_param e m =
     m\<lparr>arrays := (arrays m)(Params e := (arrays m (Params e))[0 := ''evil''])\<rparr>"

definition record_params :: "string list list Handler" where
  "record_params e m = m\<lparr>user := user m @ [arrays m (Params e)]\<rparr>"

definition example_event :: "addr Event" where
  "example_event = \<lparr>Command = ''PRIVMSG'', Params = 0, Trailing = ''hello'', Sensitive = False\<rparr>"

definition example_mem :: "string list list Mem" where
  "example_mem = \<lparr>arrays = (\<lambda>a. [])(0 := [''#chan'']), brk = 1, user = []\<rparr>"

definition no_ctcp :: "string list list Handler" where
  "no_ctcp e m = m"

text \<open>Fifty-two channel names of nine characters, and \<open>strings.Join(xs, ",")\<close>.\<close>

definition rooms :: "string list" where
  "rooms = map (\<lambda>i. ''#room'' @ digits i) [1000..<1052]"

fun commas :: "string list \<Rightarrow> string" where
  "commas [] = []"
| "commas [x] = x"
| "commas (x # y # xs) = x @ '','' @ commas (y # xs)"

text \<open>The two fields of the session state that the status queries read.\<close>

definition session :: "sys \<Rightarrow> bool \<times> time option" where
  "session s = (connected (state (fst s)), connTime (state (fst s)))"

text \<open>
  What sending an event leaves alone: the session, the connection, the cancel functions, and
  in the world the tasks, the dials, the cancelled contexts, the closed connections and the
  next context.
\<close>

definition frame ::
  "sys \<Rightarrow> (bool \<times> time option) \<times> conn option \<times> token option \<times> token option \<times> token option
     \<times> (task \<times> token) list \<times> nat \<times> token list \<times> conn list \<times> token" where
  "frame s =
     (session s, conn (state (fst s)), closeRead (fst s), closeExec (fst s), closeLoop (fst s),
      tasks (snd s), dials (snd s), cancelled (snd s), closed (snd s), next_token (snd s))"

text \<open>The four checks at the head of \<open>Connect\<close>, all passed.\<close>

definition passes_checks :: "Env \<Rightarrow> Client \<Rightarrow> bool" where
  "passes_checks E c =
     (Server (Config c) \<noteq> [] \<and> 21 \<le> Port (Config c) \<and> Port (Config c) \<le> 65535
      \<and> IsValidNick E (Nick (Config c)) \<and> IsValidUser E (User (Config c)))"

section \<open>The dispatch engine: removal and event sharing\<close>

lemmas world_defs = pause_def cancel_def WithCancel_def go_def stopped_def push_def

lemmas fixture_defs = fresh_def New_def World0_def newState_def example_config_def env_up_def
  env_first_dial_fails_def

text \<open>
  After \<open>%s\<close> has taken its token, the input is at its end or at white space, so the
  literal \<open>:\<close> of the format never matches and \<open>uid\<close> is never assigned.
\<close>

lemma scan_s_rest: "scan_s inp = Some (tok, rest) \<Longrightarrow> rest = [] \<or> isSpace (hd rest)"
proof -
  assume a: "scan_s inp = Some (tok, rest)"
  define inp1 where "inp1 = dropWhile isBlank inp"
  from a have r: "rest = dropWhile (\<lambda>ch. \<not> isSpace ch) inp1"
    by (auto simp: scan_s_def Let_def inp1_def split: if_splits)
  show ?thesis
  proof (cases "rest = []")
    case True
    then show ?thesis by simp
  next
    case False
    with r have "\<not> \<not> isSpace (hd (dropWhile (\<lambda>ch. \<not> isSpace ch) inp1))"
      using hd_dropWhile[of "\<lambda>ch. \<not> isSpace ch" inp1] by simp
    with r show ?thesis by simp
  qed
qed

lemma colon_not_space: "\<not> isSpace (CHR '':'')"
  by (simp add: isSpace_def)

lemma cuidToID_uid: "snd (cuidToID inp) = []"
proof (cases "scan_s inp")
  case None
  then show ?thesis by (simp add: cuidToID_def)
next
  case (Some p)
  obtain cmd rest where p: "p = (cmd, rest)" by (cases p)
  show ?thesis
  proof (cases rest)
    case Nil
    with Some p show ?thesis by (simp add: cuidToID_def)
  next
    case (Cons ch rest')
    with Some p scan_s_rest[of inp cmd rest] have "isSpace ch" by simp
    with colon_not_space have "ch \<noteq> CHR '':''" by auto
    with Some p Cons show ?thesis by (simp add: cuidToID_def)
  qed
qed

text \<open>So \<open>remove\<close> leaves at its first check, whatever the identifier and the registry.\<close>

lemma remove_fails: "remove c cuid = (False, c)"
proof -
  obtain cmd uid where e: "cuidToID cuid = (cmd, uid)" by (cases "cuidToID cuid")
  with cuidToID_uid[of cuid] have "uid = []" by simp
  with e show ?thesis by (simp add: remove_def)
qed

text \<open>
  Even with an identifier split as intended, the second check could not pass for a
  registered handler: it looks the whole identifier up among keys that are \<open>uid\<close>s of
  twenty letters. Here the registry has the handler under its \<open>uid\<close> and nothing under
  the identifier.
\<close>

lemma replicate_20:
  "replicate 20 x = [x, x, x, x, x, x, x, x, x, x, x, x, x, x, x, x, x, x, x, x]"
  by (simp add: eval_nat_numeral)

lemma AddHandler_const:
  "AddHandler (\<lambda>i. k) c ''privmsg'' h =
     (''PRIVMSG:'' @ replicate 20 (letterBytes ! (k mod 52)),
      c\<lparr>external := add_to (external c) ''PRIVMSG'' (replicate 20 (letterBytes ! (k mod 52))) h\<rparr>)"
  by (simp add: AddHandler_def register_def Caller_cuid_def ToUpper_def upperChar_def
      Let_def map_replicate_const letterBytes_def)

lemma registered_key_is_uid:
  "map_of (external (snd (AddHandler (\<lambda>i. 0) newCaller ''privmsg'' h))) ''PRIVMSG''
     = Some [(''aaaaaaaaaaaaaaaaaaaa'', h)]"
  by (simp add: AddHandler_const add_to_def newCaller_def letterBytes_def replicate_20)

text \<open>
  C3. A handler is registered for \<open>privmsg\<close> in an empty external registry, and
  \<open>Remove\<close> is called with the identifier the registration returned. The claim has
  \<open>Remove\<close> return true and the handler gone. The code returns false, the handler is
  still in the snapshot of \<open>exec\<close>, and the next \<open>PRIVMSG\<close> event runs it once.
\<close>

theorem Remove_registered_handler_fails:
  "(let (cuid, c1) = AddHandler (\<lambda>i. 0) newCaller ''privmsg'' record_params;
        (success, c2) = Remove c1 cuid
    in cuid = ''PRIVMSG:aaaaaaaaaaaaaaaaaaaa'' \<and> \<not> success
       \<and> map stack_cuid (snapshot c2 ''PRIVMSG'') = [''aaaaaaaaaaaaaaaaaaaa'']
       \<and> user (exec c2 ''PRIVMSG'' example_event example_mem) = [[''#chan'']])"
  by (simp add: AddHandler_const Remove_def remove_fails add_to_def newCaller_def letterBytes_def
      replicate_20 exec_def snapshot_def stack_of_def record_params_def example_event_def
      example_mem_def)

text \<open>
  C5. Two handlers are registered for \<open>PRIVMSG\<close>: the first overwrites the first
  parameter of the event it is given, the second records the parameters of the event it is
  given. An event with the parameter list \<open>[#chan]\<close> is dispatched. Registered alone,
  the recording handler sees \<open>[#chan]\<close>. With both registered it sees \<open>[evil]\<close>:
  \<open>exec\<close> hands \<open>*event\<close> to every handler, and the copies of the struct share the
  backing array of \<open>Params\<close>. The claim has each handler receive a parameter list of its
  own.
\<close>

theorem exec_shares_params:
  "(let (cuid1, c1) = AddHandler (\<lambda>i. 0) newCaller ''privmsg'' overwrite_first_param;
        (cuid2, c2) = AddHandler (\<lambda>i. 1) c1 ''privmsg'' record_params;
        (cuid3, c3) = AddHandler (\<lambda>i. 1) newCaller ''privmsg'' record_params
    in arrays example_mem (Params example_event) = [''#chan'']
       \<and> user (RunHandlers no_ctcp c3 (Some example_event) example_mem) = [[''#chan'']]
       \<and> user (RunHandlers no_ctcp c2 (Some example_event) example_mem) = [[''evil'']])"
  by (simp add: AddHandler_const add_to_def newCaller_def letterBytes_def replicate_20
      RunHandlers_def Copy_def exec_def snapshot_def stack_of_def ALLEVENTS_def
      overwrite_first_param_def record_params_def example_event_def example_mem_def
      no_ctcp_def Let_def)

section \<open>Connecting and reconnecting\<close>

lemma Connect_fresh: "Connect env_up fresh = (None, online)"
  by (simp add: Connect_def cleanup_def obtain_conn_def connectMessages_def write_def
      listCAP_def Client_Server_def decimal_def digits.simps world_defs fixture_defs online_def
      Let_def)

text \<open>
  C1. A new client with a valid configuration connects, in a world where the dial and every
  write succeed; \<open>cleanup\<close> is called afterwards. The claim has the client hold the
  cancel function of the reader's context and that of the dispatcher's, and \<open>cleanup\<close>
  cancel both. In the code both assignments go to \<open>closeRead\<close>: it ends up cancelling
  the dispatcher's context (1), \<open>closeExec\<close> stays nil, and after \<open>cleanup\<close> the
  reader's context (0) is not cancelled.
\<close>

theorem Connect_loses_reader_token:
  "(let (err, s) = Connect env_up fresh; (c', w') = cleanup False s
    in err = None \<and> tasks w' = [(ReadLoop, 0), (ExecLoop, 1)] \<and> closeRead c' = Some 1
       \<and> closeExec c' = None \<and> cancelled w' = [1] \<and> \<not> stopped w' (ReadLoop, 0))"
  by (simp add: Connect_fresh online_def cleanup_def world_defs)

text \<open>
  C2. \<open>reconnect(false)\<close> on a new client with \<open>Retries = 3\<close>, in a world where the
  first dial fails and the second would succeed. The claim has \<open>connect()\<close> attempted
  again, up to three more times. The code dials once: \<open>Connect\<close> is the init statement
  of the loop, whose body only sleeps. It sleeps four times, counts \<open>tries\<close> up to 3 and
  returns the error of the only attempt.
\<close>

theorem reconnect_attempts_once:
  "(let (err, (c', w')) = reconnect env_first_dial_fails False fresh
    in err = Some (ExternalError 111) \<and> dials w' = 1 \<and> tries c' = 3
       \<and> slept w' = [25 * Second, 25 * Second, 25 * Second, 25 * Second]
       \<and> Dial env_first_dial_fails False (Client_Server c') 1 = Inr 1)"
  by (simp add: reconnect_def Connect_def cleanup_def obtain_conn_def retry_loop.simps
      world_defs fixture_defs Second_def Let_def)

section \<open>What sending and cleaning up leave alone\<close>

lemma frame_fields:
  assumes "frame s' = frame s"
  shows "session s' = session s" and "conn (state (fst s')) = conn (state (fst s))"
    and "closeRead (fst s') = closeRead (fst s)" and "closeExec (fst s') = closeExec (fst s)"
    and "closeLoop (fst s') = closeLoop (fst s)" and "tasks (snd s') = tasks (snd s)"
    and "dials (snd s') = dials (snd s)" and "cancelled (snd s') = cancelled (snd s)"
    and "closed (snd s') = closed (snd s)" and "next_token (snd s') = next_token (snd s)"
  using assms by (simp_all add: frame_def)

lemma write_frame: "write E event s = (r, s') \<Longrightarrow> frame s' = frame s"
  by (auto simp: write_def frame_def session_def Let_def split: prod.splits)

lemma Send_frame: "Send E event s = (r, s') \<Longrightarrow> frame s' = frame s"
  by (auto simp: Send_def write_def pause_def frame_def session_def Let_def split: prod.splits)

lemma push_frame: "frame (push ev s) = frame s"
  by (auto simp: push_def frame_def session_def split: prod.splits)

lemma write_events_frame: "write_events E events s = (r, s') \<Longrightarrow> frame s' = frame s"
proof (induction events arbitrary: s)
  case Nil
  then show ?case by simp
next
  case (Cons event events)
  obtain r1 s1 where w: "write E event s = (r1, s1)" by (cases "write E event s")
  show ?case
  proof (cases r1)
    case None
    with Cons.prems w have "write_events E events s1 = (r, s')" by simp
    from Cons.IH[OF this] write_frame[OF w] show ?thesis by simp
  next
    case (Some err)
    with Cons.prems w have "s' = s1" by simp
    with write_frame[OF w] show ?thesis by simp
  qed
qed

lemma listCAP_frame: "listCAP E s = (r, s') \<Longrightarrow> frame s' = frame s"
  unfolding listCAP_def by (rule write_frame)

lemma cleanup_client: "fst (cleanup all s) = fst s"
  by (auto simp: cleanup_def Let_def split: prod.splits)

lemma cleanup_world:
  "tasks (snd (cleanup all s)) = tasks (snd s)" "dials (snd (cleanup all s)) = dials (snd s)"
  "next_token (snd (cleanup all s)) = next_token (snd s)"
  by (auto simp: cleanup_def cancel_def Let_def split: prod.splits option.splits)

lemma cleanup_closes:
  "conn (state (fst s)) = Some k \<Longrightarrow> k \<in> set (closed (snd (cleanup all s)))"
  by (auto simp: cleanup_def cancel_def Let_def split: prod.splits option.splits)

lemma cleanup_cancels:
  "closeRead (fst s) = Some t \<Longrightarrow> t \<in> set (cancelled (snd (cleanup all s)))"
  "closeExec (fst s) = Some t \<Longrightarrow> t \<in> set (cancelled (snd (cleanup all s)))"
  by (auto simp: cleanup_def cancel_def Let_def split: prod.splits option.splits)

lemma obtain_conn_frame:
  "obtain_conn E (c, w) = (r, w') \<Longrightarrow>
     tasks w' = tasks w \<and> dials w' \<le> Suc (dials w) \<and> next_token w' = next_token w"
  by (auto simp: obtain_conn_def Let_def split: option.splits)

lemma connectMessages_client:
  "state (snd (connectMessages c)) = state c"
  "closeExec (snd (connectMessages c)) = closeExec c"
  by (simp_all add: connectMessages_def Let_def)

lemma Connect_rejects:
  "\<not> passes_checks E c \<Longrightarrow> \<exists>msg. Connect E (c, w) = (Some (ErrorsNew msg), (c, w))"
  by (auto simp: passes_checks_def Connect_def)

lemma Connect_outcome:
  assumes p: "passes_checks E c" and r: "Connect E (c, w) = (r, (c', w'))"
  shows "(r \<noteq> None \<and> session (c', w') = (False, None) \<and> tasks w' = tasks w
            \<and> dials w' \<le> Suc (dials w))
       \<or> (r = None \<and> connected (state c') \<and> connTime (state c') \<noteq> None
            \<and> conn (state c') \<noteq> None
            \<and> tasks w' = tasks w @ [(ReadLoop, next_token w), (ExecLoop, Suc (next_token w))]
            \<and> closeRead c' = Some (Suc (next_token w)) \<and> closeExec c' = closeExec c
            \<and> dials w' \<le> Suc (dials w))"
proof -
  obtain c1 w1 where cl: "cleanup False (c, w) = (c1, w1)" by (cases "cleanup False (c, w)")
  from cleanup_world[of False "(c, w)"] cleanup_client[of False "(c, w)"] cl
  have t1: "tasks w1 = tasks w" "dials w1 = dials w" "next_token w1 = next_token w" "c1 = c"
    by simp_all
  define c2 where "c2 = c1\<lparr>state := newState\<rparr>"
  obtain ro w3 where oc: "obtain_conn E (c2, w1) = (ro, w3)" by (cases "obtain_conn E (c2, w1)")
  from obtain_conn_frame[OF oc] t1
  have t3: "tasks w3 = tasks w" "dials w3 \<le> Suc (dials w)" "next_token w3 = next_token w"
    by simp_all
  show ?thesis
  proof (cases ro)
    case (Inl err)
    with p r cl oc have "r = Some err" "c' = c2" "w' = w3"
      by (auto simp: Connect_def passes_checks_def c2_def Let_def)
    with t3 show ?thesis by (simp add: session_def c2_def newState_def)
  next
    case (Inr k)
    define c4 where "c4 = c2\<lparr>state := (state c2)\<lparr>conn := Some k\<rparr>\<rparr>"
    define s5 where "s5 = push \<lparr>Command = INITIALIZED, Params = [],
                                Trailing = Client_Server c4, Sensitive = False\<rparr> (c4, w3)"
    obtain events c6 where cm: "connectMessages (fst s5) = (events, c6)"
      by (cases "connectMessages (fst s5)")
    have s6: "frame (c6, snd s5) =
        ((False, None), Some k, closeRead c6, closeExec c, closeLoop c6, tasks w, dials w3,
         cancelled w3, closed w3, next_token w)"
      using connectMessages_client[of "fst s5"] cm t3 t1
      by (auto simp: frame_def session_def s5_def push_def c4_def c2_def newState_def)
    obtain r7 s7 where we: "write_events E events (c6, snd s5) = (r7, s7)"
      by (cases "write_events E events (c6, snd s5)")
    from write_events_frame[OF we] s6 have s7: "frame s7 =
        ((False, None), Some k, closeRead c6, closeExec c, closeLoop c6, tasks w, dials w3,
         cancelled w3, closed w3, next_token w)"
      by simp
    show ?thesis
    proof (cases r7)
      case (Some err)
      with p r cl oc Inr cm we have "r = Some err" "(c', w') = s7"
        by (auto simp: Connect_def passes_checks_def c2_def c4_def s5_def Let_def)
      with s7 t3 show ?thesis by (auto simp: frame_def)
    next
      case None
      obtain r8 c8 w8 where lc: "listCAP E s7 = (r8, (c8, w8))" by (cases "listCAP E s7") auto
      from listCAP_frame[OF lc] s7 have s8: "frame (c8, w8) =
        ((False, None), Some k, closeRead c6, closeExec c, closeLoop c6, tasks w, dials w3,
         cancelled w3, closed w3, next_token w)"
        by simp
      show ?thesis
      proof (cases r8)
        case (Some err)
        with p r cl oc Inr cm we None lc have "r = Some err" "(c', w') = (c8, w8)"
          by (auto simp: Connect_def passes_checks_def c2_def c4_def s5_def Let_def)
        with s8 t3 show ?thesis by (auto simp: frame_def)
      next
        case None2: None
        with p r cl oc Inr cm we None lc
        have "r = None"
          and "c' = c8\<lparr>tries := 0, reconnecting := False,
                       state := (state c8)\<lparr>connTime := Some (clock w8), connected := True\<rparr>,
                       closeRead := Some (Suc (next_token w8))\<rparr>"
          and "w' = w8\<lparr>next_token := Suc (Suc (next_token w8)),
                       tasks := tasks w8 @ [(ReadLoop, next_token w8), (ExecLoop, Suc (next_token w8))]\<rparr>"
          by (auto simp: Connect_def passes_checks_def c2_def c4_def s5_def Let_def
              WithCancel_def go_def)
        with s8 t3 show ?thesis by (auto simp: frame_def)
      qed
    qed
  qed
qed


lemma Connect_session:
  "session (snd (Connect E s)) = session s \<or> session (snd (Connect E s)) \<noteq> (True, None)"
proof -
  obtain c w where s: "s = (c, w)" by (cases s)
  obtain r c' w' where r: "Connect E (c, w) = (r, (c', w'))" by (cases "Connect E (c, w)") auto
  show ?thesis
  proof (cases "passes_checks E c")
    case True
    from Connect_outcome[OF True r] s r show ?thesis by (auto simp: session_def)
  next
    case False
    from Connect_rejects[OF False, of w] s show ?thesis by auto
  qed
qed

lemma retry_loop_frame: "frame (retry_loop err s) = frame s"
proof (induction err s rule: retry_loop.induct)
  case (1 err s)
  obtain c w where s: "s = (c, w)" by (cases s)
  show ?case
  proof (cases "err \<noteq> None \<and> tries c < Retries (Config c)")
    case True
    define s' where "s' = (c\<lparr>tries := tries c + 1\<rparr>, pause (ReconnectDelay (Config c)) w)"
    from True s have "retry_loop err s = retry_loop err s'"
      by (subst retry_loop.simps) (simp add: s'_def)
    moreover from 1[OF s[symmetric] refl True] have "frame (retry_loop err s') = frame s'"
      by (simp add: s'_def)
    moreover have "frame s' = frame s"
      by (simp add: s'_def s frame_def session_def pause_def)
    ultimately show ?thesis by simp
  next
    case False
    with s show ?thesis by (subst retry_loop.simps) auto
  qed
qed

lemma retry_loop_session: "session (retry_loop err s) = session s"
  using retry_loop_frame[of err s] by (simp add: frame_def)

lemma quit_as_cleanup: "\<exists>s1. frame s1 = frame s \<and> quit E b s = cleanup False s1"
proof -
  define ev :: "string list Event" where "ev = \<lparr>Command = QUIT, Params = [], Trailing = ''disconnecting...'',
                         Sensitive = False\<rparr>"
  obtain r s0 where sd: "Send E ev s = (r, s0)" by (cases "Send E ev s")
  define s1 where "s1 = (if b then s0 else s)"
  have "frame s1 = frame s" using Send_frame[OF sd] by (simp add: s1_def)
  then have "frame (push \<lparr>Command = DISCONNECTED, Params = [], Trailing = Client_Server (fst s1),
                     Sensitive = False\<rparr> s1) = frame s"
    by (simp add: push_frame)
  moreover have "quit E b s = cleanup False (push \<lparr>Command = DISCONNECTED, Params = [],
      Trailing = Client_Server (fst s1), Sensitive = False\<rparr> s1)"
    using sd by (simp add: quit_def s1_def ev_def Let_def)
  ultimately show ?thesis by blast
qed

lemma cleanup_session: "session (cleanup all s) = session s"
  by (simp add: session_def cleanup_client)

lemma quit_session: "session (quit E b s) = session s"
  using quit_as_cleanup[of s E b] by (auto simp: cleanup_session frame_def)

lemma Stop_session: "session (Stop E s) = session s"
  using push_frame[of _ "quit E False s"] quit_session[of E False s]
  by (simp add: Stop_def Let_def frame_def)

lemma QuitWithMessage_session: "session (QuitWithMessage E message s) = session s"
proof -
  obtain r s0 where sd: "Send E \<lparr>Command = QUIT, Params = [], Trailing = message,
      Sensitive = False\<rparr> s = (r, s0)"
    by (cases "Send E \<lparr>Command = QUIT, Params = [], Trailing = message, Sensitive = False\<rparr> s")
  from Send_frame[OF sd] have "session s0 = session s" by (simp add: frame_def)
  with sd show ?thesis by (simp add: QuitWithMessage_def quit_session)
qed

lemma Send_session: "session (snd (Send E event s)) = session s"
proof -
  obtain r s0 where sd: "Send E event s = (r, s0)" by (cases "Send E event s")
  from Send_frame[OF sd] sd show ?thesis by (simp add: frame_def)
qed

lemma Join_loop_frame: "Join_loop E mx buffer chans s = (r, s') \<Longrightarrow> frame s' = frame s"
proof (induction chans arbitrary: buffer s)
  case Nil
  then show ?case by simp
next
  case (Cons ch rest)
  show ?case
  proof (cases "IsValidChannel E ch")
    case False
    with Cons.prems show ?thesis by simp
  next
    case True
    show ?thesis
    proof (cases "int (length (buffer @ '','' @ ch)) > mx")
      case over: True
      obtain r1 s1 where sd: "Send E \<lparr>Command = JOIN, Params = [buffer], Trailing = [],
          Sensitive = False\<rparr> s = (r1, s1)"
        by (cases "Send E \<lparr>Command = JOIN, Params = [buffer], Trailing = [], Sensitive = False\<rparr> s")
      show ?thesis
      proof (cases r1)
        case None
        with Cons.prems True over sd have "Join_loop E mx [] rest s1 = (r, s')" by simp
        from Cons.IH[OF this] Send_frame[OF sd] show ?thesis by simp
      next
        case (Some err)
        with Cons.prems True over sd have "s' = s1" by simp
        with Send_frame[OF sd] show ?thesis by simp
      qed
    next
      case under: False
      define buffer' where "buffer' = (if length buffer = 0 then ch else buffer @ '','' @ ch)"
      show ?thesis
      proof (cases "rest = []")
        case True2: True
        with Cons.prems True under
        have "Send E \<lparr>Command = JOIN, Params = [buffer'], Trailing = [], Sensitive = False\<rparr> s
            = (r, s')"
          by (simp add: buffer'_def Let_def)
        then show ?thesis by (rule Send_frame)
      next
        case False2: False
        with Cons.prems True under have "Join_loop E mx buffer' rest s = (r, s')"
          by (simp add: buffer'_def Let_def)
        then show ?thesis by (rule Cons.IH)
      qed
    qed
  qed
qed

lemma Join_session: "session (snd (Join E chans s)) = session s"
proof -
  obtain r s' where j: "Join E chans s = (r, s')" by (cases "Join E chans s")
  then have "Join_loop E (maxLength E - int (length JOIN) - 1) [] chans s = (r, s')"
    by (simp add: Join_def)
  from Join_loop_frame[OF this] j show ?thesis by (simp add: frame_def)
qed

lemma JoinKey_session: "session (snd (JoinKey E channel password s)) = session s"
  by (simp add: JoinKey_def Send_session)

lemma Part_session: "session (snd (Part E channel message s)) = session s"
  by (simp add: Part_def Send_session)

lemma PartMessage_session: "session (snd (PartMessage E channel message s)) = session s"
  by (simp add: PartMessage_def Send_session)

lemma Client_Nick_session: "session (snd (Client_Nick E name s)) = session s"
proof -
  obtain c w where s: "s = (c, w)" by (cases s)
  have "session (snd (Send E \<lparr>Command = NICK, Params = [name], Trailing = [], Sensitive = False\<rparr>
             (c\<lparr>state := (state c)\<lparr>nick := name\<rparr>\<rparr>, w))) = session (c, w)"
    by (simp add: Send_session) (simp add: session_def)
  with s show ?thesis by (simp add: Client_Nick_def)
qed

lemma Loop_session: "session (Loop s) = session s"
  by (simp add: Loop_def session_def WithCancel_def go_def Let_def split: prod.splits)

lemma reconnect_in_progress:
  "reconnecting c \<Longrightarrow> reconnect E remoteInvoked (c, w) = (Some ErrDisconnected, (c, w))"
  by (simp add: reconnect_def)

lemma reconnect_result:
  fixes c :: Client and w :: World
  assumes "\<not> reconnecting c"
  defines "c3 \<equiv> (if ReconnectDelay (Config c) < 10 * Second
                  then c\<lparr>reconnecting := True,
                         Config := (Config c)\<lparr>ReconnectDelay := 25 * Second\<rparr>\<rparr>
                  else c\<lparr>reconnecting := True\<rparr>)"
  defines "w2 \<equiv> snd (cleanup False (c\<lparr>reconnecting := True\<rparr>, w))"
  shows "reconnect E remoteInvoked (c, w) =
     (if Retries (Config c) < 1 \<and> \<not> remoteInvoked
      then (Some ErrDisconnected, (c3\<lparr>reconnecting := False\<rparr>, w2))
      else (let r = Connect E (c3, pause (ReconnectDelay (Config c3)) w2);
                s6 = retry_loop (fst r) (snd r);
                s7 = (if fst r \<noteq> None then cleanup False s6 else s6)
            in (fst r, ((fst s7)\<lparr>reconnecting := False\<rparr>, snd s7))))"
proof -
  have cl: "cleanup False (c\<lparr>reconnecting := True\<rparr>, w) = (c\<lparr>reconnecting := True\<rparr>, w2)"
    using cleanup_client[of False "(c\<lparr>reconnecting := True\<rparr>, w)"]
    by (simp add: w2_def prod_eq_iff)
  show ?thesis
    using assms(1)
    by (simp add: reconnect_def cl c3_def Let_def split: prod.splits)
qed

lemma reconnect_session:
  "session (snd (reconnect E remoteInvoked s)) = session s
   \<or> session (snd (reconnect E remoteInvoked s)) \<noteq> (True, None)"
proof -
  obtain c w where s: "s = (c, w)" by (cases s)
  show ?thesis
  proof (cases "reconnecting c")
    case True
    with s show ?thesis by (simp add: reconnect_in_progress)
  next
    case False
    define c3 where "c3 = (if ReconnectDelay (Config c) < 10 * Second
                  then c\<lparr>reconnecting := True,
                         Config := (Config c)\<lparr>ReconnectDelay := 25 * Second\<rparr>\<rparr>
                  else c\<lparr>reconnecting := True\<rparr>)"
    define w2 where "w2 = snd (cleanup False (c\<lparr>reconnecting := True\<rparr>, w))"
    have s3: "session (c3, x) = session s" for x
      by (simp add: c3_def s session_def)
    note rr = reconnect_result[OF False, of E remoteInvoked w, folded c3_def w2_def]
    show ?thesis
    proof (cases "Retries (Config c) < 1 \<and> \<not> remoteInvoked")
      case True
      with rr s have "snd (reconnect E remoteInvoked s) = (c3\<lparr>reconnecting := False\<rparr>, w2)"
        by simp
      with s3[of w2] show ?thesis by (simp add: session_def)
    next
      case gate: False
      define r where "r = Connect E (c3, pause (ReconnectDelay (Config c3)) w2)"
      define s6 where "s6 = retry_loop (fst r) (snd r)"
      define s7 where "s7 = (if fst r \<noteq> None then cleanup False s6 else s6)"
      from rr gate s
      have "snd (reconnect E remoteInvoked s) = ((fst s7)\<lparr>reconnecting := False\<rparr>, snd s7)"
        by (simp add: Let_def r_def s6_def s7_def)
      moreover have "session s7 = session (snd r)"
        by (simp add: s7_def s6_def cleanup_session retry_loop_session)
      ultimately have "session (snd (reconnect E remoteInvoked s)) = session (snd r)"
        by (simp add: session_def)
      with Connect_session[of E "(c3, pause (ReconnectDelay (Config c3)) w2)"]
        s3[of "pause (ReconnectDelay (Config c3)) w2"]
      show ?thesis by (auto simp: r_def)
    qed
  qed
qed

text \<open>
  Whatever the client, the world and the flag, one call of \<open>reconnect\<close> dials at most
  once: the retry loop changes \<open>tries\<close>, the clock and the list of waits, nothing else.
\<close>

lemma Connect_dials: "dials (snd (snd (Connect E s))) \<le> Suc (dials (snd s))"
proof -
  obtain c w where s: "s = (c, w)" by (cases s)
  obtain r c' w' where r: "Connect E (c, w) = (r, (c', w'))" by (cases "Connect E (c, w)") auto
  show ?thesis
  proof (cases "passes_checks E c")
    case True
    from Connect_outcome[OF True r] s r show ?thesis by auto
  next
    case False
    from Connect_rejects[OF False, of w] s show ?thesis by auto
  qed
qed

lemma reconnect_dials_once:
  "dials (snd (snd (reconnect E remoteInvoked s))) \<le> Suc (dials (snd s))"
proof -
  obtain c w where s: "s = (c, w)" by (cases s)
  show ?thesis
  proof (cases "reconnecting c")
    case True
    with s show ?thesis by (simp add: reconnect_in_progress)
  next
    case False
    define c3 where "c3 = (if ReconnectDelay (Config c) < 10 * Second
                  then c\<lparr>reconnecting := True,
                         Config := (Config c)\<lparr>ReconnectDelay := 25 * Second\<rparr>\<rparr>
                  else c\<lparr>reconnecting := True\<rparr>)"
    define w2 where "w2 = snd (cleanup False (c\<lparr>reconnecting := True\<rparr>, w))"
    have d2: "dials w2 = dials w"
      using cleanup_world(2)[of False "(c\<lparr>reconnecting := True\<rparr>, w)"] by (simp add: w2_def)
    note rr = reconnect_result[OF False, of E remoteInvoked w, folded c3_def w2_def]
    show ?thesis
    proof (cases "Retries (Config c) < 1 \<and> \<not> remoteInvoked")
      case True
      with rr s d2 show ?thesis by simp
    next
      case gate: False
      define r where "r = Connect E (c3, pause (ReconnectDelay (Config c3)) w2)"
      define s6 where "s6 = retry_loop (fst r) (snd r)"
      define s7 where "s7 = (if fst r \<noteq> None then cleanup False s6 else s6)"
      from rr gate s
      have "snd (reconnect E remoteInvoked s) = ((fst s7)\<lparr>reconnecting := False\<rparr>, snd s7)"
        by (simp add: Let_def r_def s6_def s7_def)
      moreover have "dials (snd s7) = dials (snd (snd r))"
        by (simp add: s7_def s6_def cleanup_world frame_fields(7)[OF retry_loop_frame])
      moreover have "dials (snd (snd r)) \<le> Suc (dials w)"
        using Connect_dials[of E "(c3, pause (ReconnectDelay (Config c3)) w2)"] d2
        by (simp add: r_def pause_def)
      ultimately show ?thesis by (simp add: s)
    qed
  qed
qed

text \<open>
  The invariant: no reachable state has the connected flag set and no connection time.
\<close>

lemma reachable_timestamped: "reachable E s \<Longrightarrow> session s \<noteq> (True, None)"
proof (induction rule: reachable.induct)
  case (r_New config now)
  show ?case by (simp add: session_def New_def newState_def)
next
  case (r_Connect s)
  with Connect_session[of E s] show ?case by auto
next
  case (r_reconnect s remoteInvoked)
  with reconnect_session[of E remoteInvoked s] show ?case by auto
qed (simp_all add: cleanup_session quit_session QuitWithMessage_session Stop_session
      Loop_session Send_session Client_Nick_session Join_session JoinKey_session Part_session
      PartMessage_session push_frame[THEN frame_fields(1)],
     simp_all add: session_def DisableTracking_def DisableCapTracking_def
      DisableNickCollision_def)


section \<open>The connection timestamp\<close>

text \<open>
  C10. In every state the client can reach, a session state with the connected flag set
  has a connection time: \<open>Connect\<close> is the only writer of either field and sets both
  together, and a new state has neither. So \<open>ConnSince\<close>, taken as one step on such a
  state, does not dereference a nil pointer.
\<close>

theorem connected_has_timestamp:
  assumes "reachable E s"
  shows "(IsConnected (fst s) \<longrightarrow> connTime (state (fst s)) \<noteq> None) \<and> ConnSince s \<noteq> Panicked"
  using reachable_timestamped[OF assms]
  by (auto simp: session_def IsConnected_def ConnSince_def split: prod.splits option.splits)

theorem connected_has_timestamp_witness:
  "reachable env_up online \<and> IsConnected (fst online)
   \<and> connTime (state (fst online)) = Some 0 \<and> ConnSince online = Returned (Inr 0)"
proof -
  have "reachable env_up (snd (Connect env_up fresh))"
    unfolding fresh_def by (rule r_Connect) (rule r_New)
  then have r: "reachable env_up online" by (simp add: Connect_fresh)
  from connected_has_timestamp[OF r] r show ?thesis
    by (simp add: online_def IsConnected_def ConnSince_def)
qed

lemma Send_wire:
  "wire (snd (snd (Send E event s))) = wire (snd s) @ [(conn (state (fst s)), event)]"
  by (simp add: Send_def write_def pause_def Let_def split: prod.splits)

section \<open>Leaving a channel\<close>

text \<open>
  C8. For a valid channel name, \<open>Part\<close> and \<open>PartMessage\<close> hand \<open>Send\<close> an
  event whose command is \<open>JOIN\<close> with the channel as its only parameter (and, for
  \<open>PartMessage\<close>, the message as trailing text): the event that reaches the encoder has
  the command \<open>JOIN\<close>, not a part command.
\<close>

theorem Part_sends_JOIN:
  assumes "IsValidChannel E channel"
  shows "Part E channel message s
           = Send E \<lparr>Command = JOIN, Params = [channel], Trailing = [], Sensitive = False\<rparr> s
       \<and> PartMessage E channel message s
           = Send E \<lparr>Command = JOIN, Params = [channel], Trailing = message, Sensitive = False\<rparr> s
       \<and> wire (snd (snd (Part E channel message s)))
           = wire (snd s) @ [(conn (state (fst s)),
               \<lparr>Command = ''JOIN'', Params = [channel], Trailing = [], Sensitive = False\<rparr>)]
       \<and> wire (snd (snd (PartMessage E channel message s)))
           = wire (snd s) @ [(conn (state (fst s)),
               \<lparr>Command = ''JOIN'', Params = [channel], Trailing = message, Sensitive = False\<rparr>)]"
  using assms by (simp add: Part_def PartMessage_def Send_wire JOIN_def)

theorem Part_sends_JOIN_witness:
  "IsValidChannel env_up ''#chan''
   \<and> map (Command \<circ> snd) (wire (snd (snd (Part env_up ''#chan'' ''bye'' online))))
       = [''NICK'', ''USER'', ''CAP'', ''JOIN'']
   \<and> map (Command \<circ> snd) (wire (snd (snd (PartMessage env_up ''#chan'' ''bye'' online))))
       = [''NICK'', ''USER'', ''CAP'', ''JOIN'']"
proof -
  have v: "IsValidChannel env_up ''#chan''" by (simp add: env_up_def starts_with_hash_def)
  note t = Part_sends_JOIN[OF v, of "''bye''" online]
  from t have w1: "wire (snd (snd (Part env_up ''#chan'' ''bye'' online)))
      = wire (snd online) @ [(conn (state (fst online)),
          \<lparr>Command = ''JOIN'', Params = [''#chan''], Trailing = [], Sensitive = False\<rparr>)]"
    by blast
  from t have w2: "wire (snd (snd (PartMessage env_up ''#chan'' ''bye'' online)))
      = wire (snd online) @ [(conn (state (fst online)),
          \<lparr>Command = ''JOIN'', Params = [''#chan''], Trailing = ''bye'', Sensitive = False\<rparr>)]"
    by blast
  have "map (Command \<circ> snd) (wire (snd online)) = [''NICK'', ''USER'', ''CAP'']"
    by (simp add: online_def NICK_def USER_def CAP_def)
  with v show ?thesis by (simp add: w1 w2)
qed

section \<open>Reconnecting while a reconnect is in progress\<close>

text \<open>
  C4. \<open>reconnect\<close> is called on a client whose \<open>reconnecting\<close> flag is set, as it is
  while another call sleeps before its attempt. The call returns at once and changes
  nothing: no cleanup, no wait, no dial. The claim has it return the already-in-progress
  error; the code returns \<open>ErrDisconnected\<close>, and \<open>ErrAlreadyConnecting\<close>, declared
  for this case, is returned nowhere.
\<close>

theorem reconnect_in_progress_returns_ErrDisconnected:
  "(let s = ((fst online)\<lparr>reconnecting := True\<rparr>, snd online);
        (err, s') = reconnect env_up False s;
        (err2, s2) = Reconnect env_up s
    in err = Some ErrDisconnected \<and> err \<noteq> Some ErrAlreadyConnecting \<and> s' = s
       \<and> err2 = Some ErrDisconnected \<and> s2 = s)"
  by (simp add: Reconnect_def reconnect_in_progress)

lemma Join_rooms:
  "(let (err, (c', w')) = Join env_up rooms s
    in err = None
       \<and> map (\<lambda>(k, e). (Command e, Params e)) (drop (length (wire (snd s))) (wire w'))
          = [(''JOIN'', [commas (take 50 rooms)]), (''JOIN'', [commas (drop 51 rooms)])])"
  by (cases s)
     (simp add: Join_def Send_def write_def world_defs JOIN_def env_up_def starts_with_hash_def
      rooms_def digits.simps Let_def)

section \<open>Joining many channels\<close>

text \<open>
  C6. \<open>Join\<close> is called with fifty-two valid channel names of nine characters on a
  connected client, with the maximum line length at 510. The claim has every channel in
  exactly one of the events sent. The code sends two events: the first fifty names, then
  the fifty-second alone. The fifty-first name, with which the buffer would have passed
  the limit, is in neither: the branch that flushes the buffer empties it and goes on to the
  next name.
\<close>

theorem Join_drops_channel:
  "(let (err, (c', w')) = Join env_up rooms online
    in list_all (IsValidChannel env_up) rooms \<and> length rooms = 52 \<and> err = None
       \<and> map (\<lambda>(k, e). (Command e, Params e)) (drop (length (wire (snd online))) (wire w'))
          = [(''JOIN'', [commas (take 50 rooms)]), (''JOIN'', [commas (drop 51 rooms)])]
       \<and> rooms ! 50 = ''#room1050'' \<and> ''#room1050'' \<notin> set (take 50 rooms @ drop 51 rooms))"
proof -
  have a: "list_all (IsValidChannel env_up) rooms" "length rooms = 52"
    "rooms ! 50 = ''#room1050''" "''#room1050'' \<notin> set (take 50 rooms @ drop 51 rooms)"
    by (simp_all add: rooms_def env_up_def starts_with_hash_def digits.simps)
  from Join_rooms[of online] a show ?thesis by (simp split: prod.splits)
qed


section \<open>Errors of Connect\<close>

text \<open>
  C7. With an empty server, a port outside 21..65535, or a nickname or user name that is
  not valid, \<open>Connect\<close> returns an \<open>errors.New\<close> value at once and changes neither
  the client nor the world. Whenever \<open>Connect\<close> returns an error, no task has been
  started, and a client that was not connected is still not connected; past the four
  checks the session state is a new one, so the client is not connected whatever it was
  before.
\<close>

theorem Connect_error_starts_nothing:
  "(Server (Config c) = [] \<or> Port (Config c) < 21 \<or> Port (Config c) > 65535
      \<or> \<not> IsValidNick E (Nick (Config c)) \<or> \<not> IsValidUser E (User (Config c))
     \<longrightarrow> (\<exists>msg. Connect E (c, w) = (Some (ErrorsNew msg), (c, w))))
   \<and> (\<forall>err c' w'. Connect E (c, w) = (Some err, (c', w')) \<longrightarrow>
         tasks w' = tasks w
         \<and> (\<not> IsConnected c \<longrightarrow> \<not> IsConnected c')
         \<and> (passes_checks E c \<longrightarrow> \<not> IsConnected c'))"
proof (intro conjI impI allI)
  assume "Server (Config c) = [] \<or> Port (Config c) < 21 \<or> Port (Config c) > 65535
      \<or> \<not> IsValidNick E (Nick (Config c)) \<or> \<not> IsValidUser E (User (Config c))"
  then have "\<not> passes_checks E c" by (auto simp: passes_checks_def)
  then show "\<exists>msg. Connect E (c, w) = (Some (ErrorsNew msg), (c, w))" by (rule Connect_rejects)
next
  fix err c' w'
  assume r: "Connect E (c, w) = (Some err, (c', w'))"
  have "tasks w' = tasks w \<and> (\<not> IsConnected c \<longrightarrow> \<not> IsConnected c')
      \<and> (passes_checks E c \<longrightarrow> \<not> IsConnected c')"
  proof (cases "passes_checks E c")
    case True
    from Connect_outcome[OF True r] show ?thesis
      by (auto simp: session_def IsConnected_def)
  next
    case False
    from Connect_rejects[OF False, of w] r have "c' = c" "w' = w" by auto
    with False show ?thesis by simp
  qed
  then show "tasks w' = tasks w" and "\<not> IsConnected c \<Longrightarrow> \<not> IsConnected c'"
    and "passes_checks E c \<Longrightarrow> \<not> IsConnected c'" by auto
qed

lemma Connect_first_dial_fails:
  "Connect env_first_dial_fails fresh = (Some (ExternalError 111), (fst fresh, (snd fresh)\<lparr>dials := 1\<rparr>))"
  by (simp add: Connect_def cleanup_def obtain_conn_def world_defs fixture_defs Let_def)

theorem Connect_error_starts_nothing_witness:
  "Port (Config (New (example_config\<lparr>Port := 70000\<rparr>) 0)) > 65535
   \<and> (\<exists>msg. Connect env_up (New (example_config\<lparr>Port := 70000\<rparr>) 0, World0 0)
               = (Some (ErrorsNew msg), (New (example_config\<lparr>Port := 70000\<rparr>) 0, World0 0)))
   \<and> passes_checks env_first_dial_fails (fst fresh)
   \<and> (\<exists>c' w'. Connect env_first_dial_fails fresh = (Some (ExternalError 111), (c', w'))
               \<and> tasks w' = [] \<and> \<not> IsConnected c')"
proof -
  have p: "Port (Config (New (example_config\<lparr>Port := 70000\<rparr>) 0)) > 65535"
    by (simp add: New_def example_config_def)
  from Connect_error_starts_nothing[of "New (example_config\<lparr>Port := 70000\<rparr>) 0" env_up "World0 0"] p
  have 1: "\<exists>msg. Connect env_up (New (example_config\<lparr>Port := 70000\<rparr>) 0, World0 0)
               = (Some (ErrorsNew msg), (New (example_config\<lparr>Port := 70000\<rparr>) 0, World0 0))"
    by blast
  have q: "passes_checks env_first_dial_fails (fst fresh)"
    by (simp add: passes_checks_def fixture_defs)
  have e: "Connect env_first_dial_fails (fst fresh, snd fresh)
      = (Some (ExternalError 111), (fst fresh, (snd fresh)\<lparr>dials := 1\<rparr>))"
    using Connect_first_dial_fails by simp
  from Connect_error_starts_nothing[of "fst fresh" env_first_dial_fails "snd fresh"] e q
  have "tasks ((snd fresh)\<lparr>dials := 1\<rparr>) = tasks (snd fresh) \<and> \<not> IsConnected (fst fresh)"
    by blast
  then have "tasks ((snd fresh)\<lparr>dials := 1\<rparr>) = [] \<and> \<not> IsConnected (fst fresh)"
    by (simp add: fresh_def World0_def)
  with Connect_first_dial_fails have 2: "\<exists>c' w'. Connect env_first_dial_fails fresh
      = (Some (ExternalError 111), (c', w')) \<and> tasks w' = [] \<and> \<not> IsConnected c'"
    by blast
  from p 1 q 2 show ?thesis by blast
qed

lemma quit_effects:
  "session (quit E b s) = session s"
  "conn (state (fst s)) = Some k \<Longrightarrow> k \<in> set (closed (snd (quit E b s)))"
  "closeRead (fst s) = Some t \<Longrightarrow> t \<in> set (cancelled (snd (quit E b s)))"
proof -
  from quit_as_cleanup[of s E b] obtain s1 where f: "frame s1 = frame s"
    and q: "quit E b s = cleanup False s1" by blast
  show "session (quit E b s) = session s" by (rule quit_session)
  show "k \<in> set (closed (snd (quit E b s)))" if "conn (state (fst s)) = Some k"
    using that frame_fields(2)[OF f] q cleanup_closes[of s1 k False] by simp
  show "t \<in> set (cancelled (snd (quit E b s)))" if "closeRead (fst s) = Some t"
    using that frame_fields(3)[OF f] q cleanup_cancels(1)[of s1 t False] by simp
qed

lemma Stop_as_quit: "snd (Stop E s) = snd (quit E False s)"
  by (simp add: Stop_def push_def Let_def split: prod.splits)

section \<open>Disconnecting\<close>

text \<open>
  C9. Neither \<open>cleanup\<close> nor \<open>quit\<close> changes the connected flag. After a
  successful \<open>Connect\<close>, \<open>Quit\<close> and \<open>Stop\<close> close the connection and cancel the
  context behind \<open>closeRead\<close>, and afterwards \<open>IsConnected\<close> is still true,
  \<open>Uptime\<close> still returns the connection time and \<open>ConnSince\<close> still returns a
  duration.
\<close>

theorem quit_keeps_connected_flag:
  "IsConnected (fst (cleanup all s)) = IsConnected (fst s)
   \<and> IsConnected (fst (quit E sendMessage s)) = IsConnected (fst s)
   \<and> (\<forall>s0. Connect E s0 = (None, s) \<longrightarrow>
         IsConnected (fst (Quit E s)) \<and> IsConnected (fst (Stop E s))
         \<and> (\<exists>k t. conn (state (fst s)) = Some k \<and> closeRead (fst s) = Some t
                \<and> k \<in> set (closed (snd (Quit E s))) \<and> t \<in> set (cancelled (snd (Quit E s)))
                \<and> k \<in> set (closed (snd (Stop E s))) \<and> t \<in> set (cancelled (snd (Stop E s))))
         \<and> (\<exists>up. Uptime (fst (Quit E s)) = Inr (Some up) \<and> Uptime (fst (Stop E s)) = Inr (Some up))
         \<and> (\<exists>d. ConnSince (Quit E s) = Returned (Inr d))
         \<and> (\<exists>d. ConnSince (Stop E s) = Returned (Inr d)))"
proof (intro conjI allI impI)
  show "IsConnected (fst (cleanup all s)) = IsConnected (fst s)"
    by (simp add: cleanup_client)
  show "IsConnected (fst (quit E sendMessage s)) = IsConnected (fst s)"
    using quit_session[of E sendMessage s] by (simp add: session_def IsConnected_def)
next
  fix s0
  assume c: "Connect E s0 = (None, s)"
  obtain c0 w0 where s0: "s0 = (c0, w0)" by (cases s0)
  obtain c' w' where s: "s = (c', w')" by (cases s)
  have p: "passes_checks E c0"
    using Connect_rejects[of E c0 w0] c s0 by auto
  from Connect_outcome[OF p, of w0 None c' w'] c s0 s
  obtain k up where k: "conn (state (fst s)) = Some k" and t: "closeRead (fst s) = Some (Suc (next_token w0))"
    and u: "session s = (True, Some up)"
    by (auto simp: session_def)
  have q: "session (Quit E s) = (True, Some up)" "session (Stop E s) = (True, Some up)"
    using u by (simp_all add: Quit_def quit_session Stop_session)
  from q show "IsConnected (fst (Quit E s))" "IsConnected (fst (Stop E s))"
    by (simp_all add: session_def IsConnected_def)
  from q show "\<exists>up. Uptime (fst (Quit E s)) = Inr (Some up) \<and> Uptime (fst (Stop E s)) = Inr (Some up)"
    by (simp add: session_def IsConnected_def Uptime_def)
  from q(1) show "\<exists>d. ConnSince (Quit E s) = Returned (Inr d)"
    by (cases "Quit E s") (simp add: session_def IsConnected_def ConnSince_def)
  from q(2) show "\<exists>d. ConnSince (Stop E s) = Returned (Inr d)"
    by (cases "Stop E s") (simp add: session_def IsConnected_def ConnSince_def)
  from quit_effects(2)[OF k] quit_effects(3)[OF t] k t
  show "\<exists>k t. conn (state (fst s)) = Some k \<and> closeRead (fst s) = Some t
          \<and> k \<in> set (closed (snd (Quit E s))) \<and> t \<in> set (cancelled (snd (Quit E s)))
          \<and> k \<in> set (closed (snd (Stop E s))) \<and> t \<in> set (cancelled (snd (Stop E s)))"
    by (simp add: Quit_def Stop_as_quit)
qed

theorem quit_keeps_connected_flag_witness:
  "Connect env_up fresh = (None, online)
   \<and> IsConnected (fst (Quit env_up online)) \<and> IsConnected (fst (Stop env_up online))
   \<and> closed (snd (Quit env_up online)) = [0] \<and> cancelled (snd (Quit env_up online)) = [1]
   \<and> closed (snd (Stop env_up online)) = [0] \<and> cancelled (snd (Stop env_up online)) = [1]
   \<and> Uptime (fst (Stop env_up online)) = Inr (Some 0)"
proof -
  from quit_keeps_connected_flag[of False online env_up False] Connect_fresh
  have "IsConnected (fst (Quit env_up online))" "IsConnected (fst (Stop env_up online))"
    by blast+
  moreover have "closed (snd (Quit env_up online)) = [0]" "cancelled (snd (Quit env_up online)) = [1]"
    "closed (snd (Stop env_up online)) = [0]" "cancelled (snd (Stop env_up online)) = [1]"
    "Uptime (fst (Stop env_up online)) = Inr (Some 0)"
    by (simp_all add: Quit_def Stop_def quit_def Send_def write_def cleanup_def world_defs
        online_def Uptime_def IsConnected_def env_up_def example_config_def Let_def)
  ultimately show ?thesis using Connect_fresh by simp
qed

end
